theory Spec2Isabelle
  imports Main "HOL-Library.Multiset" "HOL-Library.List_Lexorder" "HOL-Library.Char_ord"
begin

section \<open>The relational store of \<^verbatim>\<open>src/server.ts\<close>\<close>

text \<open>
  The server keeps four tables that the attendance logic touches: \<^verbatim>\<open>students\<close>,
  \<^verbatim>\<open>units\<close>, \<^verbatim>\<open>lessons\<close> and \<^verbatim>\<open>attendance\<close> (lines 13-57). A table is the
  list of its rows in rowid order. Timestamps are the ISO strings that
  \<^verbatim>\<open>toISOString()\<close> writes; \<^verbatim>\<open>new Date(s).getTime()\<close> reads them back to the same
  millisecond count, so a timestamp is an \<^typ>\<open>int\<close> of milliseconds.
  The \<^verbatim>\<open>status\<close> column only ever holds the three literals the handlers write.
\<close>

datatype status = Pending | Present | Absent

record student =
  student_id :: int
  student_name :: string
  admission_number :: string

record unit_row =
  unit_id :: int
  unit_name :: string
  lecturer :: string

record lesson =
  lesson_id :: int
  lesson_unit :: "int option"
  lesson_date :: int
  venue :: string
  duration :: int
  start_time :: int
  end_time :: int
  scheduled_start :: string
  scheduled_end :: string
  lecturer_otp :: string
  lecturer_present :: int
  otp_enabled :: int

record attendance_row =
  att_id :: int
  att_lesson :: int
  att_student :: int
  att_otp :: string
  att_status :: status
  marked_at :: "int option"

text \<open>
  Every table has \<^verbatim>\<open>id INTEGER PRIMARY KEY AUTOINCREMENT\<close>: the database remembers
  the largest rowid it ever handed out for the table (\<^verbatim>\<open>sqlite_sequence\<close>), and a new
  row gets one more than the larger of that number and the largest rowid in the table.
  \<open>foreign_keys\<close> is the connection's \<^verbatim>\<open>PRAGMA foreign_keys\<close>; the source never sets
  it, so the driver's default applies, and no handler changes it.
\<close>

record db =
  students :: "student list"
  units :: "unit_row list"
  lessons :: "lesson list"
  attendance :: "attendance_row list"
  student_seq :: int
  unit_seq :: int
  lesson_seq :: int
  att_seq :: int
  foreign_keys :: bool

definition init_db :: "bool \<Rightarrow> db" where
  "init_db fk = \<lparr>students = [], units = [], lessons = [], attendance = [],
     student_seq = 0, unit_seq = 0, lesson_seq = 0, att_seq = 0, foreign_keys = fk\<rparr>"

definition next_rowid :: "int \<Rightarrow> int list \<Rightarrow> int" where
  "next_rowid seq ids = fold max ids seq + 1"

text \<open>HTTP error responses: status 400, 404 and 500 with the message of the JSON body.\<close>

datatype error = BadRequest string | NotFound string | ServerError string

subsection \<open>Generated codes\<close>

text \<open>
  \<^verbatim>\<open>Math.floor(100000 + Math.random() * 900000).toString()\<close>: the random source is
  an input of the request. \<open>rnd k\<close> is the integer that the \<open>k\<close>-th evaluation of
  \<^verbatim>\<open>Math.floor(100000 + Math.random() * 900000)\<close> in the request yields, and
  \<open>toString\<close> renders it in decimal.
\<close>

fun toString :: "nat \<Rightarrow> string" where
  "toString n =
     (if n < 10 then [char_of (48 + n)]
      else toString (n div 10) @ [char_of (48 + n mod 10)])"

declare toString.simps [simp del]

subsection \<open>Selecting rows\<close>

text \<open>\<^verbatim>\<open>ORDER BY id DESC LIMIT 1\<close>: the row with the largest key, if there is a row.\<close>

fun max_by :: "('a \<Rightarrow> int) \<Rightarrow> 'a list \<Rightarrow> 'a option" where
  "max_by f [] = None"
| "max_by f (x # xs) =
     (case max_by f xs of
        None \<Rightarrow> Some x
      | Some y \<Rightarrow> if f x < f y then Some y else Some x)"

text \<open>
  \<^verbatim>\<open>datetime(start_time) > datetime('now', '-24 hours')\<close> (lines 131 and 307):
  \<^verbatim>\<open>datetime\<close> renders a time as \<^verbatim>\<open>YYYY-MM-DD HH:MM:SS\<close>, dropping the milliseconds,
  and two such strings compare as their second counts do.
\<close>

definition within_24h_sql :: "int \<Rightarrow> int \<Rightarrow> bool" where
  "within_24h_sql now st \<longleftrightarrow> (now - 86400000) div 1000 < st div 1000"

text \<open>The active-lesson query of the registration and restart handlers (lines 129-133, 305-309).\<close>

definition active_lesson_sql :: "db \<Rightarrow> int \<Rightarrow> lesson option" where
  "active_lesson_sql d now =
     max_by lesson_id (filter (\<lambda>l. within_24h_sql now (start_time l)) (lessons d))"

text \<open>
  \<^verbatim>\<open>FROM lessons l JOIN units u ON l.unit_id = u.id ORDER BY l.id DESC LIMIT 1\<close>
  (lines 344-349): a lesson whose \<^verbatim>\<open>unit_id\<close> is NULL or names no unit has no row in
  the join.
\<close>

definition lessons_join_units :: "db \<Rightarrow> (lesson \<times> unit_row) list" where
  "lessons_join_units d =
     concat (map (\<lambda>l. map (\<lambda>u. (l, u))
        (filter (\<lambda>u. lesson_unit l = Some (unit_id u)) (units d))) (lessons d))"

definition latest_lesson_joined :: "db \<Rightarrow> (lesson \<times> unit_row) option" where
  "latest_lesson_joined d = max_by (\<lambda>p. lesson_id (fst p)) (lessons_join_units d)"

definition attendance_join_students :: "db \<Rightarrow> int \<Rightarrow> (attendance_row \<times> student) list" where
  "attendance_join_students d lid =
     concat (map (\<lambda>a. map (\<lambda>s. (a, s))
        (filter (\<lambda>s. att_student a = student_id s) (students d)))
        (filter (\<lambda>a. att_lesson a = lid) (attendance d)))"

subsection \<open>Inserting attendance rows\<close>

text \<open>
  \<^verbatim>\<open>INSERT INTO attendance (lesson_id, student_id, otp) VALUES (?, ?, ?)\<close> leaves
  \<^verbatim>\<open>status\<close> to its default \<^verbatim>\<open>'pending'\<close> and \<^verbatim>\<open>marked_at\<close> NULL; the registration
  handler gives the status itself.
\<close>

definition insert_attendance_row :: "int \<Rightarrow> int \<Rightarrow> string \<Rightarrow> status \<Rightarrow> db \<Rightarrow> db" where
  "insert_attendance_row lid sid code st d =
     (let i = next_rowid (att_seq d) (map att_id (attendance d))
      in d\<lparr>attendance := attendance d @
             [\<lparr>att_id = i, att_lesson = lid, att_student = sid, att_otp = code,
               att_status = st, marked_at = None\<rparr>],
           att_seq := i\<rparr>)"

text \<open>
  \<^verbatim>\<open>SELECT id FROM students\<close> (lines 272 and 322) has no ORDER BY. The engine
  answers it from the index that the UNIQUE constraint of line 17 keeps on
  \<^verbatim>\<open>admission_number\<close>, which holds every id, so the ids come in the order of the
  admission numbers, compared byte by byte.
\<close>

definition select_student_ids :: "db \<Rightarrow> int list" where
  "select_student_ids d = map student_id (sort_key admission_number (students d))"

text \<open>
  The loop \<^verbatim>\<open>for (const student of students) { otp = ...; insertAttendance.run(...) }\<close>
  of the start and restart handlers (lines 278-281, 326-329) over the selected ids;
  \<open>k\<close> counts the random draws already made in the request.
\<close>

fun insert_attendance :: "int \<Rightarrow> int list \<Rightarrow> (nat \<Rightarrow> nat) \<Rightarrow> nat \<Rightarrow> db \<Rightarrow> db" where
  "insert_attendance lid [] rnd k d = d"
| "insert_attendance lid (sid # sids) rnd k d =
     insert_attendance lid sids rnd (Suc k)
       (insert_attendance_row lid sid (toString (rnd k)) Pending d)"

text \<open>
  The rows that the loop appends when the largest rowid in use or handed out is \<open>b\<close>,
  written out: one row per selected id, in their order, with consecutive rowids and
  consecutive draws of the random source.
\<close>

fun fresh_rows :: "int \<Rightarrow> int \<Rightarrow> int list \<Rightarrow> (nat \<Rightarrow> nat) \<Rightarrow> nat \<Rightarrow> attendance_row list" where
  "fresh_rows lid b [] rnd k = []"
| "fresh_rows lid b (sid # sids) rnd k =
     \<lparr>att_id = b + 1, att_lesson = lid, att_student = sid,
      att_otp = toString (rnd k), att_status = Pending, marked_at = None\<rparr>
     # fresh_rows lid (b + 1) sids rnd (Suc k)"

text \<open>
  \<^verbatim>\<open>new Date(t).toISOString()\<close> (lines 261 and 315) throws a RangeError when \<open>t\<close>
  is not a time value of a Date, that is more than 8.64e15 milliseconds from the epoch.
\<close>

definition valid_date :: "int \<Rightarrow> bool" where
  "valid_date t \<longleftrightarrow> \<bar>t\<bar> \<le> 8640000000000000"

section \<open>The handlers\<close>

text \<open>
  A handler takes the request's fields, the clock reading \<open>now\<close> of the request
  (milliseconds), the random source where it draws codes, and the database; it returns
  the response and the database it leaves behind. \<^verbatim>\<open>(now - startTime) / (1000 * 60) > 20\<close>
  holds exactly when \<open>now - startTime > 1200000\<close>, and
  \<^verbatim>\<open>(now - startTime) / (1000 * 60 * 60) > 24\<close> exactly when \<open>now - startTime > 86400000\<close>.
\<close>

subsection \<open>Students and units\<close>

text \<open>
  POST /api/students (lines 122-153). The INSERT fails on the UNIQUE admission number,
  and the handler answers 400.
\<close>

definition post_students ::
  "string \<Rightarrow> string \<Rightarrow> (nat \<Rightarrow> nat) \<Rightarrow> int \<Rightarrow> db \<Rightarrow> (error + int) \<times> db" where
  "post_students name adm rnd now d =
     (if \<exists>s \<in> set (students d). admission_number s = adm
      then (Inl (BadRequest ''Admission number already exists''), d)
      else
        let studentId = next_rowid (student_seq d) (map student_id (students d));
            d1 = d\<lparr>students := students d @
                     [\<lparr>student_id = studentId, student_name = name, admission_number = adm\<rparr>],
                   student_seq := studentId\<rparr>
        in case active_lesson_sql d1 now of
             None \<Rightarrow> (Inr studentId, d1)
           | Some activeLesson \<Rightarrow>
               let st = (if now - start_time activeLesson > 1200000 then Absent else Pending)
               in (Inr studentId,
                   insert_attendance_row (lesson_id activeLesson) studentId
                     (toString (rnd 0)) st d1))"

text \<open>PUT /api/students/:id (lines 166-175).\<close>

definition put_students :: "int \<Rightarrow> string \<Rightarrow> string \<Rightarrow> db \<Rightarrow> (error + unit) \<times> db" where
  "put_students sid name adm d =
     (if (\<exists>s \<in> set (students d). student_id s = sid) \<and>
         (\<exists>s \<in> set (students d). student_id s \<noteq> sid \<and> admission_number s = adm)
      then (Inl (BadRequest ''Admission number already exists''), d)
      else (Inr (),
            d\<lparr>students := map (\<lambda>s. if student_id s = sid
                 then s\<lparr>student_name := name, admission_number := adm\<rparr> else s) (students d)\<rparr>))"

text \<open>DELETE /api/students/:id (lines 177-191).\<close>

definition delete_students :: "int \<Rightarrow> db \<Rightarrow> (error + unit) \<times> db" where
  "delete_students sid d =
     (let d1 = d\<lparr>attendance := filter (\<lambda>a. att_student a \<noteq> sid) (attendance d)\<rparr>;
          d2 = d1\<lparr>students := filter (\<lambda>s. student_id s \<noteq> sid) (students d1)\<rparr>
      in (Inr (), d2))"

text \<open>POST /api/units (lines 160-164) and PUT /api/units/:id (lines 193-202).\<close>

definition post_units :: "string \<Rightarrow> string \<Rightarrow> db \<Rightarrow> (error + int) \<times> db" where
  "post_units name lect d =
     (let i = next_rowid (unit_seq d) (map unit_id (units d))
      in (Inr i,
          d\<lparr>units := units d @ [\<lparr>unit_id = i, unit_name = name, lecturer = lect\<rparr>],
            unit_seq := i\<rparr>))"

definition put_units :: "int \<Rightarrow> string \<Rightarrow> string \<Rightarrow> db \<Rightarrow> (error + unit) \<times> db" where
  "put_units uid name lect d =
     (Inr (),
      d\<lparr>units := map (\<lambda>u. if unit_id u = uid
           then u\<lparr>unit_name := name, lecturer := lect\<rparr> else u) (units d)\<rparr>)"

text \<open>
  DELETE /api/units/:id (lines 204-223). The first statement of the transaction is
  \<^verbatim>\<open>db.prepare('SELECT id FROM lessons WHERE unit_id = ?').all()\<close> (line 210): it
  passes no value for its parameter, so the driver throws before any row is read. The
  DELETE statements of lines 213-216 are never reached, the transaction rolls back, and
  the handler answers 500 with the message of the exception (lines 219-222).
\<close>

definition delete_units :: "int \<Rightarrow> db \<Rightarrow> (error + unit) \<times> db" where
  "delete_units uid d = (Inl (ServerError ''Too few parameter values were provided''), d)"

subsection \<open>Sessions\<close>

text \<open>
  The body of POST /api/lessons/start as the handler reads it. \<open>Falsy\<close> is a
  \<^verbatim>\<open>unit_id\<close> for which \<^verbatim>\<open>!unit_id\<close> holds; \<open>Truthy p\<close> is any other, with \<open>p\<close> the
  value of \<^verbatim>\<open>parseInt(unit_id)\<close>, \<open>None\<close> when that is NaN (which the database stores
  as NULL). \<open>req_duration\<close> is the value of \<^verbatim>\<open>parseInt(duration)\<close> in the same way.
\<close>

datatype unit_id_field = Falsy | Truthy "int option"

record start_request =
  req_unit_id :: unit_id_field
  req_venue :: string
  req_duration :: "int option"
  req_scheduled_start :: string
  req_scheduled_end :: string

text \<open>\<^verbatim>\<open>parseInt(duration) || 60\<close> (line 260).\<close>

definition duration_num :: "start_request \<Rightarrow> int" where
  "duration_num req =
     (case req_duration req of None \<Rightarrow> 60 | Some n \<Rightarrow> if n = 0 then 60 else n)"

text \<open>
  POST /api/lessons/start (lines 248-290). The end time is rendered before anything is
  written (line 261), and with foreign keys enforced the INSERT of a lesson whose unit is
  not in \<^verbatim>\<open>units\<close> throws; either exception is caught and answered with 500.
\<close>

definition start_lesson ::
  "start_request \<Rightarrow> (nat \<Rightarrow> nat) \<Rightarrow> int \<Rightarrow> db \<Rightarrow> (error + int) \<times> db" where
  "start_lesson req rnd now d =
     (case req_unit_id req of
        Falsy \<Rightarrow> (Inl (BadRequest ''Unit ID is required''), d)
      | Truthy unitIdNum \<Rightarrow>
          let durationNum = duration_num req;
              lecturer_otp = toString (rnd 0)
          in if \<not> valid_date (now + durationNum * 60000)
             then (Inl (ServerError ''Invalid time value''), d)
             else if foreign_keys d \<and>
                (case unitIdNum of None \<Rightarrow> False
                 | Some u \<Rightarrow> u \<notin> set (map unit_id (units d)))
             then (Inl (ServerError ''FOREIGN KEY constraint failed''), d)
             else
               let lessonId = next_rowid (lesson_seq d) (map lesson_id (lessons d));
                   d1 = d\<lparr>lessons := lessons d @
                           [\<lparr>lesson_id = lessonId, lesson_unit = unitIdNum, lesson_date = now,
                             venue = req_venue req, duration = durationNum,
                             start_time = now, end_time = now + durationNum * 60000,
                             scheduled_start = req_scheduled_start req,
                             scheduled_end = req_scheduled_end req,
                             lecturer_otp = lecturer_otp, lecturer_present = 0,
                             otp_enabled = 0\<rparr>],
                         lesson_seq := lessonId\<rparr>
               in (Inr lessonId, insert_attendance lessonId (select_student_ids d1) rnd 1 d1))"

text \<open>\<^verbatim>\<open>SELECT ... FROM lessons WHERE id = ?\<close> with \<^verbatim>\<open>.get\<close> (lines 294, 394).\<close>

definition lesson_by_id :: "db \<Rightarrow> int \<Rightarrow> lesson option" where
  "lesson_by_id d lid = find (\<lambda>l. lesson_id l = lid) (lessons d)"

text \<open>POST /api/lecturer/mark (lines 292-302).\<close>

definition lecturer_mark :: "int \<Rightarrow> string \<Rightarrow> db \<Rightarrow> (error + unit) \<times> db" where
  "lecturer_mark lid code d =
     (case lesson_by_id d lid of
        None \<Rightarrow> (Inl (NotFound ''Lesson not found''), d)
      | Some l \<Rightarrow>
          if lecturer_otp l \<noteq> code then (Inl (BadRequest ''Invalid Lecturer OTP''), d)
          else (Inr (),
                d\<lparr>lessons := map (\<lambda>x. if lesson_id x = lid
                     then x\<lparr>lecturer_present := 1\<rparr> else x) (lessons d)\<rparr>))"

text \<open>
  POST /api/lessons/restart (lines 304-333). The end time is rendered before anything
  is written (line 315); its exception is not caught in the handler and the framework
  answers 500.
\<close>

definition restart_lesson :: "(nat \<Rightarrow> nat) \<Rightarrow> int \<Rightarrow> db \<Rightarrow> (error + unit) \<times> db" where
  "restart_lesson rnd now d =
     (case active_lesson_sql d now of
        None \<Rightarrow> (Inl (NotFound ''No active lesson to restart''), d)
      | Some activeLesson \<Rightarrow>
          if \<not> valid_date (now + duration activeLesson * 60000)
          then (Inl (ServerError ''Invalid time value''), d)
          else
          let d1 = d\<lparr>lessons := map (\<lambda>x. if lesson_id x = lesson_id activeLesson
                        then x\<lparr>start_time := now,
                               end_time := now + duration activeLesson * 60000,
                               otp_enabled := 0\<rparr>
                        else x) (lessons d)\<rparr>;
              studs = select_student_ids d1;
              d2 = d1\<lparr>attendance :=
                        filter (\<lambda>a. att_lesson a \<noteq> lesson_id activeLesson) (attendance d1)\<rparr>
          in (Inr (), insert_attendance (lesson_id activeLesson) studs rnd 0 d2))"

text \<open>POST /api/lessons/:id/enable-otp (lines 335-339).\<close>

definition enable_otp :: "int \<Rightarrow> db \<Rightarrow> (error + unit) \<times> db" where
  "enable_otp lid d =
     (Inr (),
      d\<lparr>lessons := map (\<lambda>x. if lesson_id x = lid then x\<lparr>otp_enabled := 1\<rparr> else x)
           (lessons d)\<rparr>)"

text \<open>
  GET /api/lessons/active (lines 341-389). The answer is \<open>None\<close> for \<^verbatim>\<open>null\<close>, or
  the lesson with its unit and its attendance rows joined with their students.
\<close>

type_synonym active_response = "(lesson \<times> unit_row \<times> (attendance_row \<times> student) list) option"

definition expire_lesson :: "int \<Rightarrow> db \<Rightarrow> db" where
  "expire_lesson lid d =
     d\<lparr>attendance := map (\<lambda>a. if att_lesson a = lid \<and> att_status a = Pending
          then a\<lparr>att_status := Absent\<rparr> else a) (attendance d)\<rparr>"

definition get_active :: "int \<Rightarrow> db \<Rightarrow> (error + active_response) \<times> db" where
  "get_active now d =
     (case latest_lesson_joined d of
        None \<Rightarrow> (Inr None, d)
      | Some (l, u) \<Rightarrow>
          if now - start_time l > 86400000 then (Inr None, d)
          else
            let d1 = (if now - start_time l > 1200000 then expire_lesson (lesson_id l) d else d)
            in (Inr (Some (l, u, attendance_join_students d1 (lesson_id l))), d1))"

text \<open>The lessons that have a row in the join of the poll, and the id of the lesson answered.\<close>

definition has_unit :: "db \<Rightarrow> lesson \<Rightarrow> bool" where
  "has_unit d l \<longleftrightarrow> (\<exists>u \<in> set (units d). lesson_unit l = Some (unit_id u))"

definition answered_lesson :: "error + active_response \<Rightarrow> int option" where
  "answered_lesson r =
     (case r of Inr (Some (l, u, rows)) \<Rightarrow> Some (lesson_id l) | _ \<Rightarrow> None)"

subsection \<open>Marking attendance\<close>

text \<open>POST /api/attendance/mark (lines 391-418).\<close>

definition expire_student :: "int \<Rightarrow> int \<Rightarrow> db \<Rightarrow> db" where
  "expire_student lid sid d =
     d\<lparr>attendance := map (\<lambda>a. if att_lesson a = lid \<and> att_student a = sid \<and> att_status a = Pending
          then a\<lparr>att_status := Absent\<rparr> else a) (attendance d)\<rparr>"

text \<open>
  \<^verbatim>\<open>SELECT * FROM attendance WHERE lesson_id = ? AND student_id = ? AND otp = ?\<close>
  with \<^verbatim>\<open>.get\<close> (line 408): the first row that matches; the comparison of the codes
  is equality of strings.
\<close>

definition attendance_record :: "db \<Rightarrow> int \<Rightarrow> int \<Rightarrow> string \<Rightarrow> attendance_row option" where
  "attendance_record d lid sid code =
     find (\<lambda>a. att_lesson a = lid \<and> att_student a = sid \<and> att_otp a = code) (attendance d)"

definition mark_present :: "int \<Rightarrow> int \<Rightarrow> db \<Rightarrow> db" where
  "mark_present rid now d =
     d\<lparr>attendance := map (\<lambda>a. if att_id a = rid
          then a\<lparr>att_status := Present, marked_at := Some now\<rparr> else a) (attendance d)\<rparr>"

definition mark_attendance ::
  "int \<Rightarrow> int \<Rightarrow> string \<Rightarrow> int \<Rightarrow> db \<Rightarrow> (error + unit) \<times> db" where
  "mark_attendance lid sid code now d =
     (case lesson_by_id d lid of
        None \<Rightarrow> (Inl (NotFound ''Lesson not found''), d)
      | Some l \<Rightarrow>
          if otp_enabled l = 0
          then (Inl (BadRequest ''OTP input is not yet enabled by the representative''), d)
          else if now - start_time l > 1200000
          then (Inl (BadRequest ''OTP has expired (20 minutes elapsed)''),
                expire_student lid sid d)
          else
            (case attendance_record d lid sid code of
               None \<Rightarrow> (Inl (BadRequest ''Invalid OTP''), d)
             | Some record \<Rightarrow>
                 if att_status record = Present
                 then (Inl (BadRequest ''Already marked present''), d)
                 else (Inr (), mark_present (att_id record) now d)))"

section \<open>Sequences of requests\<close>

datatype request =
    PostStudent string string
  | PutStudent int string string
  | DeleteStudent int
  | PostUnit string string
  | PutUnit int string string
  | DeleteUnit int
  | StartLesson start_request
  | LecturerMark int string
  | RestartLesson
  | EnableOtp int
  | GetActive
  | MarkAttendance int int string

text \<open>The database a request leaves behind, whatever it answers.\<close>

fun step :: "request \<Rightarrow> (nat \<Rightarrow> nat) \<Rightarrow> int \<Rightarrow> db \<Rightarrow> db" where
  "step (PostStudent name adm) rnd now d = snd (post_students name adm rnd now d)"
| "step (PutStudent sid name adm) rnd now d = snd (put_students sid name adm d)"
| "step (DeleteStudent sid) rnd now d = snd (delete_students sid d)"
| "step (PostUnit name lect) rnd now d = snd (post_units name lect d)"
| "step (PutUnit uid name lect) rnd now d = snd (put_units uid name lect d)"
| "step (DeleteUnit uid) rnd now d = snd (delete_units uid d)"
| "step (StartLesson req) rnd now d = snd (start_lesson req rnd now d)"
| "step (LecturerMark lid code) rnd now d = snd (lecturer_mark lid code d)"
| "step RestartLesson rnd now d = snd (restart_lesson rnd now d)"
| "step (EnableOtp lid) rnd now d = snd (enable_otp lid d)"
| "step GetActive rnd now d = snd (get_active now d)"
| "step (MarkAttendance lid sid code) rnd now d = snd (mark_attendance lid sid code now d)"

text \<open>
  An event is a request with the clock reading and the random source it is served with.
  \<open>run d evs\<close> lists the databases after each event, oldest first.
\<close>

type_synonym event = "int \<times> (nat \<Rightarrow> nat) \<times> request"

fun run :: "db \<Rightarrow> event list \<Rightarrow> db list" where
  "run d [] = []"
| "run d ((now, rnd, r) # evs) = step r rnd now d # run (step r rnd now d) evs"

section \<open>A sample class\<close>

text \<open>
  One unit, two students, and a session started at time 0 with code entry enabled: the
  database that the requests \<open>sample_events\<close> build from the empty one.
\<close>

definition sample_rnd :: "nat \<Rightarrow> nat" where
  "sample_rnd k = 111111 * (k + 1)"

definition sample_request :: start_request where
  "sample_request = \<lparr>req_unit_id = Truthy (Some 1), req_venue = ''LT1'',
     req_duration = Some 60, req_scheduled_start = ''08:00'', req_scheduled_end = ''09:00''\<rparr>"

definition sample_events :: "event list" where
  "sample_events =
     [(0, sample_rnd, PostUnit ''Logic'' ''Dr Kamau''),
      (0, sample_rnd, PostStudent ''Achieng'' ''ADM001''),
      (0, sample_rnd, PostStudent ''Baraka'' ''ADM002''),
      (0, sample_rnd, StartLesson sample_request),
      (1000, sample_rnd, EnableOtp 1)]"

definition sample_lesson :: lesson where
  "sample_lesson = \<lparr>lesson_id = 1, lesson_unit = Some 1, lesson_date = 0, venue = ''LT1'',
     duration = 60, start_time = 0, end_time = 3600000, scheduled_start = ''08:00'',
     scheduled_end = ''09:00'', lecturer_otp = ''111111'', lecturer_present = 0,
     otp_enabled = 1\<rparr>"

definition sample_row :: "int \<Rightarrow> int \<Rightarrow> string \<Rightarrow> status \<Rightarrow> attendance_row" where
  "sample_row i sid code st = \<lparr>att_id = i, att_lesson = 1, att_student = sid, att_otp = code,
     att_status = st, marked_at = None\<rparr>"

definition sample_db :: db where
  "sample_db = \<lparr>
     students = [\<lparr>student_id = 1, student_name = ''Achieng'', admission_number = ''ADM001''\<rparr>,
                 \<lparr>student_id = 2, student_name = ''Baraka'', admission_number = ''ADM002''\<rparr>],
     units = [\<lparr>unit_id = 1, unit_name = ''Logic'', lecturer = ''Dr Kamau''\<rparr>],
     lessons = [sample_lesson],
     attendance = [sample_row 1 1 ''222222'' Pending, sample_row 2 2 ''333333'' Pending],
     student_seq = 2, unit_seq = 1, lesson_seq = 1, att_seq = 2, foreign_keys = True\<rparr>"

text \<open>The same class after the first student has been marked present at time 60000.\<close>

definition sample_db_marked :: db where
  "sample_db_marked = sample_db\<lparr>attendance :=
     [(sample_row 1 1 ''222222'' Present)\<lparr>marked_at := Some 60000\<rparr>,
      sample_row 2 2 ''333333'' Pending]\<rparr>"

text \<open>
  Two lessons of the unit: the older row (id 1) carries the later start, 25 hours after
  the start of the newer row (id 2).
\<close>

definition stale_db :: db where
  "stale_db = sample_db\<lparr>lessons :=
     [sample_lesson\<lparr>start_time := 90000000, end_time := 93600000\<rparr>,
      sample_lesson\<lparr>lesson_id := 2\<rparr>],
     lesson_seq := 2\<rparr>"

text \<open>
  The sample class one minute later, after a second session has been started with a
  \<^verbatim>\<open>unit_id\<close> that is not a number: \<^verbatim>\<open>parseInt\<close> gives NaN and lesson 2 is stored
  with no unit.
\<close>

definition orphan_events :: "event list" where
  "orphan_events = sample_events @
     [(60000, sample_rnd, StartLesson (sample_request\<lparr>req_unit_id := Truthy None\<rparr>))]"

definition orphan_db :: db where
  "orphan_db = sample_db\<lparr>
     lessons := [sample_lesson,
       sample_lesson\<lparr>lesson_id := 2, lesson_unit := None, lesson_date := 60000,
         start_time := 60000, end_time := 3660000, otp_enabled := 0\<rparr>],
     attendance := [sample_row 1 1 ''222222'' Pending, sample_row 2 2 ''333333'' Pending,
       (sample_row 3 1 ''222222'' Pending)\<lparr>att_lesson := 2\<rparr>,
       (sample_row 4 2 ''333333'' Pending)\<lparr>att_lesson := 2\<rparr>],
     lesson_seq := 2, att_seq := 4\<rparr>"

text \<open>
  The sample class with a session of 144000000000 minutes, which ends at the last
  millisecond a Date can hold, and a request for a session of 200000000000 minutes.
\<close>

definition long_db :: db where
  "long_db = sample_db\<lparr>lessons :=
     [sample_lesson\<lparr>duration := 144000000000, end_time := 8640000000000000\<rparr>]\<rparr>"

definition long_events :: "event list" where
  "long_events =
     [(0, sample_rnd, PostUnit ''Logic'' ''Dr Kamau''),
      (0, sample_rnd, PostStudent ''Achieng'' ''ADM001''),
      (0, sample_rnd, PostStudent ''Baraka'' ''ADM002''),
      (0, sample_rnd, StartLesson (sample_request\<lparr>req_duration := Some 144000000000\<rparr>)),
      (1000, sample_rnd, EnableOtp 1)]"


text \<open>The requests that build the sample class, followed by a restart a minute later.\<close>

definition restart_events :: "event list" where
  "restart_events = sample_events @ [(60000, sample_rnd, RestartLesson)]"

section \<open>The reached states\<close>

text \<open>
  What the attendance logic reads of the lessons: the id and the start of each row.
\<close>

definition lesson_starts :: "db \<Rightarrow> (int \<times> int) list" where
  "lesson_starts d = map (\<lambda>l. (lesson_id l, start_time l)) (lessons d)"

text \<open>
  The invariant of the states reached by clock reading \<open>t\<close>: the rowids of the
  attendance rows are distinct and were handed out by the sequence, the lesson ids are
  distinct, every attendance row belongs to a lesson of the table, and an absent row
  belongs to a lesson that started more than 20 minutes before \<open>t\<close>.
\<close>

definition consistent :: "int \<Rightarrow> db \<Rightarrow> bool" where
  "consistent t d \<longleftrightarrow>
     distinct (map att_id (attendance d)) \<and>
     (\<forall>a \<in> set (attendance d). att_id a \<le> att_seq d) \<and>
     distinct (map fst (lesson_starts d)) \<and>
     (\<forall>a \<in> set (attendance d). att_lesson a \<in> set (map fst (lesson_starts d))) \<and>
     (\<forall>a \<in> set (attendance d). att_status a = Absent \<longrightarrow>
        (\<forall>p \<in> set (lesson_starts d). fst p = att_lesson a \<longrightarrow> 1200000 < t - snd p))"

text \<open>
  How the attendance table of a later state \<open>d'\<close> relates to that of \<open>d\<close>: a row of
  \<open>d'\<close> has a rowid handed out after \<open>d\<close>, or it is a row of \<open>d\<close> whose status is
  the same or was pending.
\<close>

definition evolves :: "db \<Rightarrow> db \<Rightarrow> bool" where
  "evolves d d' \<longleftrightarrow>
     att_seq d \<le> att_seq d' \<and>
     (\<forall>a' \<in> set (attendance d').
        att_seq d < att_id a' \<or>
        (\<exists>a \<in> set (attendance d). att_id a = att_id a' \<and>
           (att_status a' = att_status a \<or> att_status a = Pending)))"

section \<open>The conditions of the specification\<close>

text \<open>
  The four conditions that the specification lists for a submission to succeed: the
  lesson exists, code entry is enabled, at most 20 minutes have passed since the start,
  and the submitted code is the one stored in a row of that student for that lesson.
\<close>

definition spec_mark_conditions :: "int \<Rightarrow> int \<Rightarrow> string \<Rightarrow> int \<Rightarrow> db \<Rightarrow> bool" where
  "spec_mark_conditions lid sid code now d \<longleftrightarrow>
     (case lesson_by_id d lid of
        None \<Rightarrow> False
      | Some l \<Rightarrow> otp_enabled l \<noteq> 0 \<and> now - start_time l \<le> 1200000 \<and>
          (\<exists>a \<in> set (attendance d). att_lesson a = lid \<and> att_student a = sid \<and> att_otp a = code))"

section \<open>Marking attendance\<close>

lemma filter_map_untouched:
  assumes "\<And>a. P (f a) = P a" and "\<And>a. P a \<Longrightarrow> f a = a"
  shows "filter P (map f xs) = filter P xs"
  using assms by (induction xs) auto

lemma map_fixed_all:
  assumes "map f xs = xs" and "a \<in> set xs"
  shows "f a = a"
  using assms by (induction xs) auto

lemma mark_attendance_expired:
  assumes "lesson_by_id d lid = Some l"
      and "otp_enabled l \<noteq> 0" and "now - start_time l > 1200000"
  shows "mark_attendance lid sid code now d =
           (Inl (BadRequest ''OTP has expired (20 minutes elapsed)''), expire_student lid sid d)"
  using assms by (simp add: mark_attendance_def)

lemma get_active_sweeps:
  assumes "latest_lesson_joined d = Some (l, u)"
      and "1200000 < now - start_time l" and "now - start_time l \<le> 86400000"
  shows "snd (get_active now d) = expire_lesson (lesson_id l) d"
proof -
  have "\<not> now - start_time l > 86400000" using assms(3) by simp
  then show ?thesis
    unfolding get_active_def assms(1) Let_def using assms(2) by simp
qed

lemma set_map_all:
  assumes "a \<in> set (map f xs)" and "\<And>x. Q (f x)"
  shows "Q a"
  using assms by auto

lemma expire_lesson_no_pending:
  assumes "a \<in> set (attendance (expire_lesson lid d))" and "att_lesson a = lid"
  shows "att_status a \<noteq> Pending"
proof -
  have "a \<in> set (map (\<lambda>a. if att_lesson a = lid \<and> att_status a = Pending
          then a\<lparr>att_status := Absent\<rparr> else a) (attendance d))"
    using assms(1) by (simp add: expire_lesson_def)
  then have "att_lesson a = lid \<longrightarrow> att_status a \<noteq> Pending"
    by (rule set_map_all) simp
  with assms(2) show ?thesis by simp
qed

lemma expire_student_no_pending:
  assumes "a \<in> set (attendance (expire_student lid sid d))"
      and "att_lesson a = lid" and "att_student a = sid"
  shows "att_status a \<noteq> Pending"
proof -
  have "a \<in> set (map (\<lambda>a. if att_lesson a = lid \<and> att_student a = sid \<and> att_status a = Pending
          then a\<lparr>att_status := Absent\<rparr> else a) (attendance d))"
    using assms(1) by (simp add: expire_student_def)
  then have "att_lesson a = lid \<and> att_student a = sid \<longrightarrow> att_status a \<noteq> Pending"
    by (rule set_map_all) simp
  with assms(2,3) show ?thesis by simp
qed

lemma expire_student_others:
  "filter (\<lambda>a. att_student a \<noteq> sid) (attendance (expire_student lid sid d)) =
     filter (\<lambda>a. att_student a \<noteq> sid) (attendance d)"
proof -
  have "filter (\<lambda>a. att_student a \<noteq> sid)
      (map (\<lambda>a. if att_lesson a = lid \<and> att_student a = sid \<and> att_status a = Pending
                  then a\<lparr>att_status := Absent\<rparr> else a) (attendance d))
     = filter (\<lambda>a. att_student a \<noteq> sid) (attendance d)"
    by (rule filter_map_untouched) auto
  then show ?thesis by (simp add: expire_student_def)
qed

lemma sample_lesson_found: "lesson_by_id sample_db 1 = Some sample_lesson"
  by (simp add: lesson_by_id_def sample_db_def sample_lesson_def)

text \<open>
  C1, as the specification states it. The claim is that a submission succeeds exactly
  when the lesson exists, code entry is enabled, at most 20 minutes have passed and the
  code is the stored one. In the sample class the first student is already present and
  submits the right code again two minutes after the start: all four conditions hold,
  and the handler answers 400 (line 411).
\<close>

theorem mark_resubmission_rejected:
  "spec_mark_conditions 1 1 ''222222'' 120000 sample_db_marked \<and>
   fst (mark_attendance 1 1 ''222222'' 120000 sample_db_marked) =
     Inl (BadRequest ''Already marked present'')"
  by (simp add: spec_mark_conditions_def mark_attendance_def lesson_by_id_def
      attendance_record_def sample_db_marked_def sample_db_def sample_lesson_def sample_row_def)

text \<open>
  C1, amended. A submission succeeds if and only if the lesson exists, its
  \<^verbatim>\<open>otp_enabled\<close> flag is set, at most 20 minutes have passed since its start, a row of
  that student for that lesson stores exactly the submitted code, and that row is not
  already present. Every other submission is answered with an error. On success the row
  becomes present with \<^verbatim>\<open>marked_at\<close> set, and no other row or table changes.
\<close>

theorem mark_attendance_success_iff:
  "(fst (mark_attendance lid sid code now d) = Inr () \<longleftrightarrow>
      (\<exists>l r. lesson_by_id d lid = Some l \<and> otp_enabled l \<noteq> 0 \<and> now - start_time l \<le> 1200000
           \<and> attendance_record d lid sid code = Some r \<and> att_status r \<noteq> Present))
   \<and> (fst (mark_attendance lid sid code now d) \<noteq> Inr () \<longrightarrow>
        (\<exists>e. fst (mark_attendance lid sid code now d) = Inl e))
   \<and> (\<forall>r. fst (mark_attendance lid sid code now d) = Inr () \<and>
           attendance_record d lid sid code = Some r \<longrightarrow>
        attendance (snd (mark_attendance lid sid code now d)) =
          map (\<lambda>a. if att_id a = att_id r
                    then a\<lparr>att_status := Present, marked_at := Some now\<rparr> else a) (attendance d)
        \<and> lessons (snd (mark_attendance lid sid code now d)) = lessons d
        \<and> students (snd (mark_attendance lid sid code now d)) = students d
        \<and> units (snd (mark_attendance lid sid code now d)) = units d)"
  by (auto simp: mark_attendance_def mark_present_def split: option.splits)

theorem mark_attendance_success_iff_witness:
  "fst (mark_attendance 1 1 ''222222'' 60000 sample_db) = Inr () \<and>
   attendance (snd (mark_attendance 1 1 ''222222'' 60000 sample_db)) =
     attendance sample_db_marked"
proof -
  have r: "attendance_record sample_db 1 1 ''222222'' = Some (sample_row 1 1 ''222222'' Pending)"
    by (simp add: attendance_record_def sample_db_def sample_row_def)
  have l: "otp_enabled sample_lesson \<noteq> 0 \<and> 60000 - start_time sample_lesson \<le> 1200000
      \<and> att_status (sample_row 1 1 ''222222'' Pending) \<noteq> Present"
    by (simp add: sample_lesson_def sample_row_def)
  from mark_attendance_success_iff [of 1 1 "''222222''" 60000 sample_db] sample_lesson_found r l
  have ok: "fst (mark_attendance 1 1 ''222222'' 60000 sample_db) = Inr ()"
    by blast
  with mark_attendance_success_iff [of 1 1 "''222222''" 60000 sample_db] r
  have "attendance (snd (mark_attendance 1 1 ''222222'' 60000 sample_db)) =
          map (\<lambda>a. if att_id a = att_id (sample_row 1 1 ''222222'' Pending)
                    then a\<lparr>att_status := Present, marked_at := Some 60000\<rparr> else a)
            (attendance sample_db)"
    by blast
  then have "attendance (snd (mark_attendance 1 1 ''222222'' 60000 sample_db)) =
     attendance sample_db_marked"
    by (simp add: sample_db_marked_def sample_db_def sample_row_def)
  with ok show ?thesis by simp
qed

section \<open>Expiry\<close>

text \<open>
  C3, as the specification states it. The claim is that a failed late submission, like
  a poll, flips every pending row of the lesson to absent. In the sample class both rows
  of lesson 1 are pending; the first student submits 25 minutes after the start. The
  request is rejected as expired and the second student's row is still pending
  (line 404 restricts the update to the submitting student).
\<close>

theorem late_submission_leaves_others_pending:
  "map att_lesson (attendance sample_db) = [1, 1] \<and>
   map att_status (attendance sample_db) = [Pending, Pending] \<and>
   fst (mark_attendance 1 1 ''222222'' 1500000 sample_db) =
     Inl (BadRequest ''OTP has expired (20 minutes elapsed)'') \<and>
   map att_status (attendance (snd (mark_attendance 1 1 ''222222'' 1500000 sample_db))) =
     [Absent, Pending]"
  by (simp add: mark_attendance_def lesson_by_id_def expire_student_def
      sample_db_def sample_lesson_def sample_row_def)

text \<open>
  C3, amended. When more than 20 minutes and at most 24 hours have passed since the start
  of the lesson that GET /api/lessons/active selects, the poll flips every pending row of
  that lesson to absent and changes no other row. A late submission to
  POST /api/attendance/mark, for a lesson whose \<^verbatim>\<open>otp_enabled\<close> flag is set, flips only
  the pending rows of the submitting student for that lesson; the rows of the other
  students keep their status.
\<close>

theorem lazy_expiry_sweep:
  "(\<forall>l u. latest_lesson_joined d = Some (l, u) \<and> 1200000 < now - start_time l \<and>
           now - start_time l \<le> 86400000 \<longrightarrow>
      attendance (snd (get_active now d)) =
        map (\<lambda>a. if att_lesson a = lesson_id l \<and> att_status a = Pending
                  then a\<lparr>att_status := Absent\<rparr> else a) (attendance d)
      \<and> (\<forall>a \<in> set (attendance (snd (get_active now d))).
            att_lesson a = lesson_id l \<longrightarrow> att_status a \<noteq> Pending))
   \<and> (\<forall>l. lesson_by_id d lid = Some l \<and> otp_enabled l \<noteq> 0 \<and> 1200000 < now - start_time l \<longrightarrow>
      attendance (snd (mark_attendance lid sid code now d)) =
        map (\<lambda>a. if att_lesson a = lid \<and> att_student a = sid \<and> att_status a = Pending
                  then a\<lparr>att_status := Absent\<rparr> else a) (attendance d)
      \<and> (\<forall>a \<in> set (attendance (snd (mark_attendance lid sid code now d))).
            att_lesson a = lid \<and> att_student a = sid \<longrightarrow> att_status a \<noteq> Pending)
      \<and> filter (\<lambda>a. att_student a \<noteq> sid) (attendance (snd (mark_attendance lid sid code now d)))
          = filter (\<lambda>a. att_student a \<noteq> sid) (attendance d))"
proof -
  have poll: "attendance (snd (get_active now d)) =
        map (\<lambda>a. if att_lesson a = lesson_id l \<and> att_status a = Pending
                  then a\<lparr>att_status := Absent\<rparr> else a) (attendance d)
      \<and> (\<forall>a \<in> set (attendance (snd (get_active now d))).
            att_lesson a = lesson_id l \<longrightarrow> att_status a \<noteq> Pending)"
    if "latest_lesson_joined d = Some (l, u)" "1200000 < now - start_time l"
       "now - start_time l \<le> 86400000" for l u
  proof -
    have eq: "snd (get_active now d) = expire_lesson (lesson_id l) d"
      using that by (rule get_active_sweeps)
    have "attendance (expire_lesson (lesson_id l) d) =
        map (\<lambda>a. if att_lesson a = lesson_id l \<and> att_status a = Pending
                  then a\<lparr>att_status := Absent\<rparr> else a) (attendance d)"
      by (simp add: expire_lesson_def)
    moreover have "\<forall>a \<in> set (attendance (expire_lesson (lesson_id l) d)).
            att_lesson a = lesson_id l \<longrightarrow> att_status a \<noteq> Pending"
      using expire_lesson_no_pending by blast
    ultimately show ?thesis unfolding eq by (rule conjI)
  qed
  have late: "attendance (snd (mark_attendance lid sid code now d)) =
        map (\<lambda>a. if att_lesson a = lid \<and> att_student a = sid \<and> att_status a = Pending
                  then a\<lparr>att_status := Absent\<rparr> else a) (attendance d)
      \<and> (\<forall>a \<in> set (attendance (snd (mark_attendance lid sid code now d))).
            att_lesson a = lid \<and> att_student a = sid \<longrightarrow> att_status a \<noteq> Pending)
      \<and> filter (\<lambda>a. att_student a \<noteq> sid) (attendance (snd (mark_attendance lid sid code now d)))
          = filter (\<lambda>a. att_student a \<noteq> sid) (attendance d)"
    if "lesson_by_id d lid = Some l" "otp_enabled l \<noteq> 0" "1200000 < now - start_time l" for l
  proof -
    have eq: "snd (mark_attendance lid sid code now d) = expire_student lid sid d"
      using mark_attendance_expired [OF that] by simp
    have "attendance (expire_student lid sid d) =
        map (\<lambda>a. if att_lesson a = lid \<and> att_student a = sid \<and> att_status a = Pending
                  then a\<lparr>att_status := Absent\<rparr> else a) (attendance d)"
      by (simp add: expire_student_def)
    moreover have "\<forall>a \<in> set (attendance (expire_student lid sid d)).
            att_lesson a = lid \<and> att_student a = sid \<longrightarrow> att_status a \<noteq> Pending"
      using expire_student_no_pending by blast
    moreover note expire_student_others [of sid lid d]
    ultimately show ?thesis unfolding eq by (intro conjI)
  qed
  from poll late show ?thesis by blast
qed

lemma sample_latest_joined:
  "latest_lesson_joined sample_db =
     Some (sample_lesson, \<lparr>unit_id = 1, unit_name = ''Logic'', lecturer = ''Dr Kamau''\<rparr>)"
  by (simp add: latest_lesson_joined_def lessons_join_units_def sample_db_def sample_lesson_def)

theorem lazy_expiry_sweep_witness:
  "map att_status (attendance (snd (get_active 1500000 sample_db))) = [Absent, Absent] \<and>
   map att_status (attendance (snd (mark_attendance 1 2 ''000000'' 1500000 sample_db))) =
     [Pending, Absent]"
proof -
  have t: "1200000 < 1500000 - start_time sample_lesson \<and>
      1500000 - start_time sample_lesson \<le> 86400000 \<and> otp_enabled sample_lesson \<noteq> 0"
    by (simp add: sample_lesson_def)
  from lazy_expiry_sweep [of sample_db 1500000 1 2 "''000000''"] sample_latest_joined t
  have "attendance (snd (get_active 1500000 sample_db)) =
        map (\<lambda>a. if att_lesson a = lesson_id sample_lesson \<and> att_status a = Pending
                  then a\<lparr>att_status := Absent\<rparr> else a) (attendance sample_db)"
    by blast
  moreover
  from lazy_expiry_sweep [of sample_db 1500000 1 2 "''000000''"] sample_lesson_found t
  have "attendance (snd (mark_attendance 1 2 ''000000'' 1500000 sample_db)) =
        map (\<lambda>a. if att_lesson a = 1 \<and> att_student a = 2 \<and> att_status a = Pending
                  then a\<lparr>att_status := Absent\<rparr> else a) (attendance sample_db)"
    by blast
  ultimately show ?thesis
    by (simp add: sample_db_def sample_lesson_def sample_row_def)
qed

text \<open>
  C9. A late submission (the lesson exists, \<^verbatim>\<open>otp_enabled\<close> is set, more than 20
  minutes have passed) is answered with the error "OTP has expired" and still writes:
  the rows of that student for that lesson that were pending are now absent. No row is
  inserted or deleted, every other row and every other table is as before, and if the
  student had a pending row the database has changed.
\<close>

theorem late_submission_not_atomic:
  assumes "lesson_by_id d lid = Some l"
      and "otp_enabled l \<noteq> 0" and "now - start_time l > 1200000"
  shows "fst (mark_attendance lid sid code now d) =
           Inl (BadRequest ''OTP has expired (20 minutes elapsed)'')
       \<and> map att_id (attendance (snd (mark_attendance lid sid code now d))) = map att_id (attendance d)
       \<and> (\<forall>i < length (attendance d).
            attendance (snd (mark_attendance lid sid code now d)) ! i =
              (if att_lesson (attendance d ! i) = lid \<and> att_student (attendance d ! i) = sid
                  \<and> att_status (attendance d ! i) = Pending
               then (attendance d ! i)\<lparr>att_status := Absent\<rparr> else attendance d ! i))
       \<and> filter (\<lambda>a. \<not> (att_lesson a = lid \<and> att_student a = sid))
            (attendance (snd (mark_attendance lid sid code now d)))
          = filter (\<lambda>a. \<not> (att_lesson a = lid \<and> att_student a = sid)) (attendance d)
       \<and> students (snd (mark_attendance lid sid code now d)) = students d
       \<and> units (snd (mark_attendance lid sid code now d)) = units d
       \<and> lessons (snd (mark_attendance lid sid code now d)) = lessons d
       \<and> ((\<exists>a \<in> set (attendance d). att_lesson a = lid \<and> att_student a = sid \<and> att_status a = Pending)
            \<longrightarrow> snd (mark_attendance lid sid code now d) \<noteq> d)"
proof -
  let ?f = "\<lambda>a. if att_lesson a = lid \<and> att_student a = sid \<and> att_status a = Pending
          then a\<lparr>att_status := Absent\<rparr> else a"
  let ?d' = "snd (mark_attendance lid sid code now d)"
  have eq: "mark_attendance lid sid code now d =
      (Inl (BadRequest ''OTP has expired (20 minutes elapsed)''), expire_student lid sid d)"
    using assms by (rule mark_attendance_expired)
  have att: "attendance ?d' = map ?f (attendance d)"
    by (simp add: eq expire_student_def)
  have c1: "fst (mark_attendance lid sid code now d) =
           Inl (BadRequest ''OTP has expired (20 minutes elapsed)'')"
    by (simp add: eq)
  have c2: "map att_id (attendance ?d') = map att_id (attendance d)"
    unfolding att by (induction "attendance d") auto
  have c3: "\<forall>i < length (attendance d). attendance ?d' ! i = ?f (attendance d ! i)"
    unfolding att by simp
  have c4: "filter (\<lambda>a. \<not> (att_lesson a = lid \<and> att_student a = sid)) (attendance ?d')
          = filter (\<lambda>a. \<not> (att_lesson a = lid \<and> att_student a = sid)) (attendance d)"
    unfolding att by (rule filter_map_untouched) auto
  have c5: "students ?d' = students d \<and> units ?d' = units d \<and> lessons ?d' = lessons d"
    by (simp add: eq expire_student_def)
  have c6: "?d' \<noteq> d"
    if "\<exists>a \<in> set (attendance d). att_lesson a = lid \<and> att_student a = sid \<and> att_status a = Pending"
  proof
    assume "?d' = d"
    then have fixed: "map ?f (attendance d) = attendance d" using att by simp
    from that obtain a where a: "a \<in> set (attendance d)" "att_lesson a = lid"
      "att_student a = sid" "att_status a = Pending" by blast
    have "?f a = a" using fixed a(1) by (rule map_fixed_all)
    then have "att_status (?f a) = att_status a" by simp
    with a show False by simp
  qed
  from c1 c2 c3 c4 c5 c6 show ?thesis by blast
qed

theorem late_submission_not_atomic_witness:
  "fst (mark_attendance 1 2 ''333333'' 1200001 sample_db) =
     Inl (BadRequest ''OTP has expired (20 minutes elapsed)'') \<and>
   snd (mark_attendance 1 2 ''333333'' 1200001 sample_db) \<noteq> sample_db \<and>
   attendance (snd (mark_attendance 1 2 ''333333'' 1200001 sample_db)) ! 0 =
     sample_row 1 1 ''222222'' Pending"
proof -
  have t: "otp_enabled sample_lesson \<noteq> 0" "1200001 - start_time sample_lesson > 1200000"
    by (simp_all add: sample_lesson_def)
  have p: "\<exists>a \<in> set (attendance sample_db).
      att_lesson a = 1 \<and> att_student a = 2 \<and> att_status a = Pending"
    by (simp add: sample_db_def sample_row_def)
  have n: "0 < length (attendance sample_db) \<and>
      attendance sample_db ! 0 = sample_row 1 1 ''222222'' Pending \<and>
      att_student (sample_row 1 1 ''222222'' Pending) \<noteq> 2"
    by (simp add: sample_db_def sample_row_def)
  from late_submission_not_atomic [OF sample_lesson_found t, of 2 "''333333''"] p n
  show ?thesis by auto
qed

section \<open>Deleting a unit\<close>

text \<open>
  C4. The claim is that DELETE /api/units/:id succeeds and removes the unit, its lessons
  and their attendance rows. In the sample class unit 1 has one lesson with two
  attendance rows. The request to delete unit 1 is answered with 500 and the database is
  as it was: the SELECT of line 210 is run without a value for its parameter, and none
  of the DELETE statements that follow it is reached.
\<close>

theorem delete_units_deletes_nothing:
  "map unit_id (units sample_db) = [1] \<and>
   map lesson_unit (lessons sample_db) = [Some 1] \<and>
   map att_lesson (attendance sample_db) = [1, 1] \<and>
   fst (delete_units 1 sample_db) = Inl (ServerError ''Too few parameter values were provided'') \<and>
   snd (delete_units 1 sample_db) = sample_db"
  by (simp add: delete_units_def sample_db_def sample_lesson_def sample_row_def)

section \<open>The active lesson\<close>

lemma max_by_None: "max_by f xs = None \<longleftrightarrow> xs = []"
  by (induction xs) (auto split: option.splits)

lemma max_by_in: "max_by f xs = Some y \<Longrightarrow> y \<in> set xs"
  by (induction xs arbitrary: y) (auto split: option.splits if_splits)

lemma max_by_ge: "max_by f xs = Some y \<Longrightarrow> x \<in> set xs \<Longrightarrow> f x \<le> f y"
proof (induction xs arbitrary: y)
  case Nil
  then show ?case by simp
next
  case (Cons z zs)
  show ?case
  proof (cases "max_by f zs")
    case None
    then have "zs = []" by (simp add: max_by_None)
    with Cons.prems None show ?thesis by simp
  next
    case (Some m)
    have m: "f x \<le> f m" if "x \<in> set zs"
      using Some that by (rule Cons.IH)
    show ?thesis
    proof (cases "f z < f m")
      case True
      with Some Cons.prems(1) have "y = m" by simp
      with True m Cons.prems(2) show ?thesis by auto
    next
      case False
      with Some Cons.prems(1) have "y = z" by simp
      with False m Cons.prems(2) show ?thesis by fastforce
    qed
  qed
qed

lemma max_by_exists: "xs \<noteq> [] \<Longrightarrow> \<exists>y. max_by f xs = Some y"
  using max_by_None [of f xs] by (cases "max_by f xs") auto

lemma distinct_map_eq:
  assumes "distinct (map f xs)" and "x \<in> set xs" and "y \<in> set xs" and "f x = f y"
  shows "x = y"
  using assms by (meson distinct_map inj_onD)

lemma in_lessons_join_units:
  "(l, u) \<in> set (lessons_join_units d) \<longleftrightarrow>
     l \<in> set (lessons d) \<and> u \<in> set (units d) \<and> lesson_unit l = Some (unit_id u)"
  by (auto simp: lessons_join_units_def)

text \<open>
  With distinct lesson ids, the row that the join-and-sort of the poll selects is the
  lesson of greatest id, provided that lesson names a unit.
\<close>

lemma latest_lesson_joined_greatest:
  assumes dist: "distinct (map lesson_id (lessons d))"
      and l: "l \<in> set (lessons d)"
      and top: "\<forall>l' \<in> set (lessons d). lesson_id l' \<le> lesson_id l"
      and unit: "\<exists>u \<in> set (units d). lesson_unit l = Some (unit_id u)"
  shows "\<exists>u. latest_lesson_joined d = Some (l, u) \<and> u \<in> set (units d) \<and>
              lesson_unit l = Some (unit_id u)"
proof -
  from unit obtain u0 where u0: "u0 \<in> set (units d)" "lesson_unit l = Some (unit_id u0)" by blast
  with l have mem: "(l, u0) \<in> set (lessons_join_units d)" by (simp add: in_lessons_join_units)
  then have "lessons_join_units d \<noteq> []" by auto
  then obtain p where p: "latest_lesson_joined d = Some p"
    unfolding latest_lesson_joined_def using max_by_exists by blast
  obtain l' u where lu: "p = (l', u)" by (cases p)
  have in': "(l', u) \<in> set (lessons_join_units d)"
    using p lu max_by_in unfolding latest_lesson_joined_def by metis
  then have l': "l' \<in> set (lessons d)" "u \<in> set (units d)" "lesson_unit l' = Some (unit_id u)"
    by (simp_all add: in_lessons_join_units)
  have "lesson_id (fst (l, u0)) \<le> lesson_id (fst p)"
    using p mem unfolding latest_lesson_joined_def by (rule max_by_ge)
  then have "lesson_id l \<le> lesson_id l'" using lu by simp
  moreover have "lesson_id l' \<le> lesson_id l" using top l'(1) by blast
  ultimately have same: "lesson_id l' = lesson_id l" by simp
  have "l' = l" using dist l'(1) l same by (rule distinct_map_eq)
  with p lu l' show ?thesis by blast
qed


lemma within_24h_sql_recent:
  assumes "within_24h_sql now st"
  shows "now - st < 86400000"
proof -
  have "(now - 86400000) div 1000 + 1 \<le> st div 1000"
    using assms by (simp add: within_24h_sql_def)
  then have "((now - 86400000) div 1000 + 1) * 1000 \<le> st div 1000 * 1000" by simp
  moreover have "st div 1000 * 1000 \<le> st" by simp
  moreover have "now - 86400000 < ((now - 86400000) div 1000 + 1) * 1000"
    by (simp add: algebra_simps)
  ultimately show ?thesis by linarith
qed

lemma has_unit_joined:
  "has_unit d l \<and> l \<in> set (lessons d) \<longleftrightarrow> (\<exists>u. (l, u) \<in> set (lessons_join_units d))"
  by (auto simp: has_unit_def in_lessons_join_units)

text \<open>
  With distinct lesson ids, the row that the join-and-sort of the poll selects is the
  lesson of greatest id among those that have a unit.
\<close>

lemma latest_lesson_joined_top:
  assumes dist: "distinct (map lesson_id (lessons d))"
      and l: "l \<in> set (lessons d)"
      and unit: "has_unit d l"
      and top: "\<forall>l' \<in> set (lessons d). has_unit d l' \<longrightarrow> lesson_id l' \<le> lesson_id l"
  shows "\<exists>u. latest_lesson_joined d = Some (l, u) \<and> u \<in> set (units d) \<and>
              lesson_unit l = Some (unit_id u)"
proof -
  from unit obtain u0 where u0: "u0 \<in> set (units d)" "lesson_unit l = Some (unit_id u0)"
    unfolding has_unit_def by blast
  with l have mem: "(l, u0) \<in> set (lessons_join_units d)" by (simp add: in_lessons_join_units)
  have "lessons_join_units d \<noteq> []"
  proof
    assume "lessons_join_units d = []"
    with mem have "(l, u0) \<in> set []" by metis
    then show False by simp
  qed
  then obtain p where p: "latest_lesson_joined d = Some p"
    unfolding latest_lesson_joined_def using max_by_exists by blast
  obtain l' u where lu: "p = (l', u)" by (cases p)
  have in': "(l', u) \<in> set (lessons_join_units d)"
    using p lu max_by_in unfolding latest_lesson_joined_def by metis
  then have l': "l' \<in> set (lessons d)" "u \<in> set (units d)" "lesson_unit l' = Some (unit_id u)"
    by (simp_all add: in_lessons_join_units)
  then have "has_unit d l'" unfolding has_unit_def by blast
  have "lesson_id (fst (l, u0)) \<le> lesson_id (fst p)"
    using p mem unfolding latest_lesson_joined_def by (rule max_by_ge)
  then have "lesson_id l \<le> lesson_id l'" using lu by simp
  moreover have "lesson_id l' \<le> lesson_id l" using top l'(1) \<open>has_unit d l'\<close> by blast
  ultimately have same: "lesson_id l' = lesson_id l" by simp
  have "l' = l" using dist l'(1) l same by (rule distinct_map_eq)
  with p lu l' show ?thesis by blast
qed

lemma latest_lesson_joined_Some:
  assumes "latest_lesson_joined d = Some (l, u)"
  shows "l \<in> set (lessons d) \<and> u \<in> set (units d) \<and> lesson_unit l = Some (unit_id u) \<and>
         (\<forall>l' \<in> set (lessons d). has_unit d l' \<longrightarrow> lesson_id l' \<le> lesson_id l)"
proof -
  have "(l, u) \<in> set (lessons_join_units d)"
    using assms max_by_in unfolding latest_lesson_joined_def by metis
  then have m: "l \<in> set (lessons d) \<and> u \<in> set (units d) \<and> lesson_unit l = Some (unit_id u)"
    by (simp add: in_lessons_join_units)
  have "lesson_id l' \<le> lesson_id l" if "l' \<in> set (lessons d)" "has_unit d l'" for l'
  proof -
    from that obtain u' where "(l', u') \<in> set (lessons_join_units d)"
      using has_unit_joined by blast
    with assms have "lesson_id (fst (l', u')) \<le> lesson_id (fst (l, u))"
      unfolding latest_lesson_joined_def by (rule max_by_ge)
    then show ?thesis by simp
  qed
  with m show ?thesis by blast
qed

lemma latest_lesson_joined_None:
  "latest_lesson_joined d = None \<longleftrightarrow> (\<forall>l \<in> set (lessons d). \<not> has_unit d l)"
proof -
  have "latest_lesson_joined d = None \<longleftrightarrow> lessons_join_units d = []"
    by (simp add: latest_lesson_joined_def max_by_None)
  also have "\<dots> \<longleftrightarrow> (\<forall>l \<in> set (lessons d). \<not> has_unit d l)"
  proof
    assume e: "lessons_join_units d = []"
    show "\<forall>l \<in> set (lessons d). \<not> has_unit d l"
    proof
      fix l assume "l \<in> set (lessons d)"
      show "\<not> has_unit d l"
      proof
        assume "has_unit d l"
        with \<open>l \<in> set (lessons d)\<close> obtain u where "(l, u) \<in> set (lessons_join_units d)"
          using has_unit_joined by blast
        with e show False by simp
      qed
    qed
  next
    assume n: "\<forall>l \<in> set (lessons d). \<not> has_unit d l"
    show "lessons_join_units d = []"
    proof (rule ccontr)
      assume "lessons_join_units d \<noteq> []"
      then obtain p ps where "lessons_join_units d = p # ps"
        by (cases "lessons_join_units d") auto
      then have "(fst p, snd p) \<in> set (lessons_join_units d)" by simp
      then obtain l u where "(l, u) \<in> set (lessons_join_units d)" by blast
      then have "has_unit d l \<and> l \<in> set (lessons d)" using has_unit_joined by blast
      with n show False by blast
    qed
  qed
  finally show ?thesis .
qed

text \<open>
  C8, as stated. The claim is that GET /api/lessons/active returns the most recently
  created lesson whenever that lesson started within the last 24 hours. In \<open>orphan_db\<close>
  the most recently created lesson is lesson 2, started at 60000 with a \<^verbatim>\<open>unit_id\<close> that
  is not a number and stored with no unit. One minute later the poll returns lesson 1:
  the inner JOIN of lines 344-349 has no row for lesson 2.
\<close>

theorem get_active_skips_lesson_without_unit:
  "map lesson_id (lessons orphan_db) = [1, 2] \<and>
   map lesson_unit (lessons orphan_db) = [Some 1, None] \<and>
   map start_time (lessons orphan_db) = [0, 60000] \<and>
   answered_lesson (fst (get_active 120000 orphan_db)) = Some 1"
  by (simp add: answered_lesson_def get_active_def latest_lesson_joined_def
      lessons_join_units_def orphan_db_def sample_db_def sample_lesson_def Let_def)

text \<open>
  C8, amended. GET /api/lessons/active looks only at the lessons whose \<^verbatim>\<open>unit_id\<close>
  names an existing unit. With distinct lesson ids (the primary key): it returns the
  most recently created of those lessons if at most 24 hours have passed since its
  start, and \<^verbatim>\<open>null\<close> if more have; it returns \<^verbatim>\<open>null\<close> when there is no such lesson;
  and whatever lesson it returns is that one. The poll never changes the \<^verbatim>\<open>lessons\<close>
  table: there is no closed or cancelled state to write.
\<close>

theorem get_active_latest_with_unit:
  assumes "distinct (map lesson_id (lessons d))"
  shows "((\<forall>l \<in> set (lessons d). \<not> has_unit d l) \<longrightarrow> fst (get_active now d) = Inr None)
       \<and> (\<forall>l \<in> set (lessons d).
            has_unit d l \<and>
            (\<forall>l' \<in> set (lessons d). has_unit d l' \<longrightarrow> lesson_id l' \<le> lesson_id l) \<longrightarrow>
            ((now - start_time l \<le> 86400000 \<longrightarrow>
                (\<exists>u rows. fst (get_active now d) = Inr (Some (l, u, rows)) \<and>
                   u \<in> set (units d) \<and> lesson_unit l = Some (unit_id u)))
             \<and> (now - start_time l > 86400000 \<longrightarrow> fst (get_active now d) = Inr None)))
       \<and> (\<forall>l u rows. fst (get_active now d) = Inr (Some (l, u, rows)) \<longrightarrow>
            l \<in> set (lessons d) \<and> has_unit d l \<and>
            (\<forall>l' \<in> set (lessons d). has_unit d l' \<longrightarrow> lesson_id l' \<le> lesson_id l) \<and>
            now - start_time l \<le> 86400000)
       \<and> lessons (snd (get_active now d)) = lessons d"
proof -
  have none: "fst (get_active now d) = Inr None" if "\<forall>l \<in> set (lessons d). \<not> has_unit d l"
  proof -
    from that have "latest_lesson_joined d = None" by (simp add: latest_lesson_joined_None)
    then show ?thesis by (simp add: get_active_def)
  qed
  have greatest: "(now - start_time l \<le> 86400000 \<longrightarrow>
                (\<exists>u rows. fst (get_active now d) = Inr (Some (l, u, rows)) \<and>
                   u \<in> set (units d) \<and> lesson_unit l = Some (unit_id u)))
             \<and> (now - start_time l > 86400000 \<longrightarrow> fst (get_active now d) = Inr None)"
    if l: "l \<in> set (lessons d)" and hu: "has_unit d l"
      and g: "\<forall>l' \<in> set (lessons d). has_unit d l' \<longrightarrow> lesson_id l' \<le> lesson_id l" for l
  proof -
    from latest_lesson_joined_top [OF assms l hu g]
    obtain u where u: "latest_lesson_joined d = Some (l, u)"
      "u \<in> set (units d)" "lesson_unit l = Some (unit_id u)" by blast
    show ?thesis
      unfolding get_active_def u(1) using u(2,3) by (simp add: Let_def)
  qed
  have conv: "l \<in> set (lessons d) \<and> has_unit d l \<and>
            (\<forall>l' \<in> set (lessons d). has_unit d l' \<longrightarrow> lesson_id l' \<le> lesson_id l) \<and>
            now - start_time l \<le> 86400000"
    if r: "fst (get_active now d) = Inr (Some (l, u, rows))" for l u rows
  proof (cases "latest_lesson_joined d")
    case None
    with r show ?thesis by (simp add: get_active_def)
  next
    case (Some p)
    obtain l0 u0 where p: "p = (l0, u0)" by (cases p)
    from r Some p have recent: "now - start_time l0 \<le> 86400000" and same: "l0 = l"
      by (auto simp: get_active_def Let_def split: if_splits)
    from Some p have j: "latest_lesson_joined d = Some (l0, u0)" by simp
    from latest_lesson_joined_Some [OF j]
    have m: "l0 \<in> set (lessons d)" "u0 \<in> set (units d)" "lesson_unit l0 = Some (unit_id u0)"
      "\<forall>l' \<in> set (lessons d). has_unit d l' \<longrightarrow> lesson_id l' \<le> lesson_id l0" by simp_all
    from m(2,3) have "has_unit d l0" unfolding has_unit_def by blast
    with m recent same show ?thesis by simp
  qed
  have keep: "lessons (snd (get_active now d)) = lessons d"
    by (auto simp: get_active_def Let_def expire_lesson_def split: option.splits)
  from none greatest conv keep show ?thesis by blast
qed

lemma orphan_lesson_1:
  "sample_lesson \<in> set (lessons orphan_db) \<and> has_unit orphan_db sample_lesson \<and>
   (\<forall>l' \<in> set (lessons orphan_db). has_unit orphan_db l' \<longrightarrow>
      lesson_id l' \<le> lesson_id sample_lesson)"
  by (simp add: has_unit_def orphan_db_def sample_db_def sample_lesson_def)

theorem get_active_latest_with_unit_witness:
  "(\<exists>u rows. fst (get_active 120000 orphan_db) = Inr (Some (sample_lesson, u, rows))) \<and>
   fst (get_active 90000000 orphan_db) = Inr None \<and>
   lessons (snd (get_active 90000000 orphan_db)) = lessons orphan_db"
proof -
  have d: "distinct (map lesson_id (lessons orphan_db))"
    by (simp add: orphan_db_def sample_db_def sample_lesson_def)
  have t: "120000 - start_time sample_lesson \<le> 86400000"
    "90000000 - start_time sample_lesson > 86400000"
    by (simp_all add: sample_lesson_def)
  from get_active_latest_with_unit [OF d, of 120000] orphan_lesson_1 t(1)
  have "\<exists>u rows. fst (get_active 120000 orphan_db) = Inr (Some (sample_lesson, u, rows))"
    by blast
  moreover
  from get_active_latest_with_unit [OF d, of 90000000] orphan_lesson_1 t(2)
  have "fst (get_active 90000000 orphan_db) = Inr None"
    by blast
  moreover
  from get_active_latest_with_unit [OF d, of 90000000]
  have "lessons (snd (get_active 90000000 orphan_db)) = lessons orphan_db"
    by blast
  ultimately show ?thesis by simp
qed

lemma sample_lesson_greatest:
  "sample_lesson \<in> set (lessons sample_db) \<and>
   (\<forall>l' \<in> set (lessons sample_db). lesson_id l' \<le> lesson_id sample_lesson) \<and>
   (\<exists>u \<in> set (units sample_db). lesson_unit sample_lesson = Some (unit_id u))"
  by (simp add: sample_db_def sample_lesson_def)

lemma sample_lessons_distinct: "distinct (map lesson_id (lessons sample_db))"
  by (simp add: sample_db_def)

text \<open>
  C10, as stated. The claim is that in every database state the lesson that the query
  of the restart and registration handlers selects is the one that
  GET /api/lessons/active returns. In \<open>stale_db\<close> the lesson of greatest id started
  more than 24 hours before time 90060000 and lesson 1 started a minute before it: the
  query selects lesson 1, and the poll looks at lesson 2 only and answers \<^verbatim>\<open>null\<close>.
\<close>

theorem active_notions_differ:
  "map_option lesson_id (active_lesson_sql stale_db 90060000) = Some 1 \<and>
   fst (get_active 90060000 stale_db) = Inr None"
  by (simp add: active_lesson_sql_def within_24h_sql_def get_active_def latest_lesson_joined_def
      lessons_join_units_def stale_db_def sample_db_def sample_lesson_def)

text \<open>
  C10, amended. Let the lesson ids be distinct. If the lesson of greatest id names an
  existing unit and its start passes the test of the query (its start second is later
  than the second 24 hours before now), the query of the restart and registration
  handlers selects that lesson and GET /api/lessons/active returns that lesson. If every
  lesson started more than 24 hours ago, the query selects no lesson and the poll
  answers \<^verbatim>\<open>null\<close>.
\<close>

theorem active_notions_agree:
  assumes "distinct (map lesson_id (lessons d))"
  shows "(\<forall>l \<in> set (lessons d).
            (\<forall>l' \<in> set (lessons d). lesson_id l' \<le> lesson_id l) \<and>
            (\<exists>u \<in> set (units d). lesson_unit l = Some (unit_id u)) \<and>
            within_24h_sql now (start_time l) \<longrightarrow>
            active_lesson_sql d now = Some l \<and>
            (\<exists>u rows. fst (get_active now d) = Inr (Some (l, u, rows))))
       \<and> ((\<forall>l \<in> set (lessons d). now - start_time l > 86400000) \<longrightarrow>
            active_lesson_sql d now = None \<and> fst (get_active now d) = Inr None)"
proof -
  have fresh: "active_lesson_sql d now = Some l \<and>
      (\<exists>u rows. fst (get_active now d) = Inr (Some (l, u, rows)))"
    if l: "l \<in> set (lessons d)"
      and g: "\<forall>l' \<in> set (lessons d). lesson_id l' \<le> lesson_id l"
      and u: "\<exists>u \<in> set (units d). lesson_unit l = Some (unit_id u)"
      and w: "within_24h_sql now (start_time l)" for l
  proof -
    let ?xs = "filter (\<lambda>l. within_24h_sql now (start_time l)) (lessons d)"
    have lx: "l \<in> set ?xs" using l w by simp
    have "?xs \<noteq> []"
    proof
      assume "?xs = []"
      with lx have "l \<in> set []" by metis
      then show False by simp
    qed
    then obtain y where y: "max_by lesson_id ?xs = Some y" using max_by_exists by blast
    have "y \<in> set ?xs" using y by (rule max_by_in)
    then have yl: "y \<in> set (lessons d)" by simp
    have "lesson_id l \<le> lesson_id y" using y lx by (rule max_by_ge)
    moreover have "lesson_id y \<le> lesson_id l" using g yl by blast
    ultimately have same: "lesson_id y = lesson_id l" by simp
    have "y = l" using assms yl l same by (rule distinct_map_eq)
    with y have sql: "active_lesson_sql d now = Some l" by (simp add: active_lesson_sql_def)
    from assms l g u obtain u' where j: "latest_lesson_joined d = Some (l, u')"
      using latest_lesson_joined_greatest by blast
    have "\<not> now - start_time l > 86400000" using within_24h_sql_recent [OF w] by simp
    then have "\<exists>u rows. fst (get_active now d) = Inr (Some (l, u, rows))"
      unfolding get_active_def j by (simp add: Let_def)
    with sql show ?thesis by simp
  qed
  have stale: "active_lesson_sql d now = None \<and> fst (get_active now d) = Inr None"
    if old: "\<forall>l \<in> set (lessons d). now - start_time l > 86400000"
  proof -
    have "filter (\<lambda>l. within_24h_sql now (start_time l)) (lessons d) = []"
    proof -
      have "\<not> within_24h_sql now (start_time l)" if "l \<in> set (lessons d)" for l
        using old that within_24h_sql_recent [of now "start_time l"] by fastforce
      then show ?thesis by (simp add: filter_empty_conv)
    qed
    then have sql: "active_lesson_sql d now = None" by (simp add: active_lesson_sql_def)
    have "fst (get_active now d) = Inr None"
    proof (cases "latest_lesson_joined d")
      case None
      then show ?thesis by (simp add: get_active_def)
    next
      case (Some p)
      obtain l0 u0 where p: "p = (l0, u0)" by (cases p)
      have "(l0, u0) \<in> set (lessons_join_units d)"
        using Some p max_by_in unfolding latest_lesson_joined_def by metis
      then have "l0 \<in> set (lessons d)" by (simp add: in_lessons_join_units)
      with old have "now - start_time l0 > 86400000" by blast
      then show ?thesis unfolding get_active_def Some p by simp
    qed
    with sql show ?thesis by simp
  qed
  from fresh stale show ?thesis by blast
qed

theorem active_notions_agree_witness:
  "active_lesson_sql sample_db 60000 = Some sample_lesson \<and>
   (\<exists>u rows. fst (get_active 60000 sample_db) = Inr (Some (sample_lesson, u, rows))) \<and>
   active_lesson_sql sample_db 90000000 = None \<and>
   fst (get_active 90000000 sample_db) = Inr None"
proof -
  have w: "within_24h_sql 60000 (start_time sample_lesson)"
    by (simp add: within_24h_sql_def sample_lesson_def)
  have old: "\<forall>l \<in> set (lessons sample_db). 90000000 - start_time l > 86400000"
    by (simp add: sample_db_def sample_lesson_def)
  from active_notions_agree [OF sample_lessons_distinct, of 60000] sample_lesson_greatest w
  have "active_lesson_sql sample_db 60000 = Some sample_lesson \<and>
   (\<exists>u rows. fst (get_active 60000 sample_db) = Inr (Some (sample_lesson, u, rows)))"
    by blast
  moreover
  from active_notions_agree [OF sample_lessons_distinct, of 90000000] old
  have "active_lesson_sql sample_db 90000000 = None \<and>
   fst (get_active 90000000 sample_db) = Inr None"
    by blast
  ultimately show ?thesis by simp
qed

section \<open>The sample class is reached\<close>

lemma sample_codes:
  "toString (sample_rnd 0) = ''111111'' \<and> toString (sample_rnd (Suc 0)) = ''222222'' \<and>
   toString (sample_rnd (Suc (Suc 0))) = ''333333''"
  by (simp add: sample_rnd_def toString.simps char_of_def bit_iff_odd)

lemma sample_db_reached: "last (run (init_db True) sample_events) = sample_db"
  using sample_codes
  by (simp add: sample_events_def init_db_def post_units_def post_students_def start_lesson_def
      enable_otp_def next_rowid_def active_lesson_sql_def insert_attendance_row_def
      select_student_ids_def valid_date_def duration_num_def
      sample_request_def sample_db_def sample_lesson_def sample_row_def Let_def)

lemma orphan_db_reached: "last (run (init_db True) orphan_events) = orphan_db"
  using sample_codes
  by (simp add: orphan_events_def orphan_db_def
      sample_events_def init_db_def post_units_def post_students_def start_lesson_def
      enable_otp_def next_rowid_def active_lesson_sql_def insert_attendance_row_def
      select_student_ids_def valid_date_def duration_num_def
      sample_request_def sample_db_def sample_lesson_def sample_row_def Let_def)

lemma long_db_reached: "last (run (init_db True) long_events) = long_db"
  using sample_codes
  by (simp add: long_events_def long_db_def init_db_def post_units_def post_students_def
      start_lesson_def enable_otp_def next_rowid_def active_lesson_sql_def
      insert_attendance_row_def select_student_ids_def valid_date_def duration_num_def
      sample_request_def sample_db_def sample_lesson_def sample_row_def Let_def)

section \<open>Starting and restarting a session\<close>

lemma fold_max_ge_init: "(s::int) \<le> fold max xs s"
  by (induction xs arbitrary: s) (auto intro: order_trans [OF max.cobounded2])

lemma fold_max_ge_mem: "x \<in> set xs \<Longrightarrow> (x::int) \<le> fold max xs s"
proof (induction xs arbitrary: s)
  case Nil
  then show ?case by simp
next
  case (Cons y ys)
  show ?case
  proof (cases "x = y")
    case True
    have "max y s \<le> fold max ys (max y s)" by (rule fold_max_ge_init)
    with True show ?thesis by simp
  next
    case False
    with Cons.prems have "x \<in> set ys" by simp
    then show ?thesis by (simp add: Cons.IH)
  qed
qed

lemma fold_max_absorb: "\<forall>x \<in> set xs. (x::int) \<le> s \<Longrightarrow> fold max xs s = s"
  by (induction xs arbitrary: s) (simp_all add: max_absorb2)

lemma fold_max_step:
  "fold max (xs @ [fold max xs s + 1]) (fold max xs s + 1) = fold max xs s + (1::int)"
proof -
  have "\<forall>x \<in> set (xs @ [fold max xs s + 1]). x \<le> fold max xs s + 1"
    using fold_max_ge_mem [of _ xs s] by fastforce
  then show ?thesis by (rule fold_max_absorb)
qed

text \<open>The loop computes the rows of \<open>fresh_rows\<close> and touches nothing else.\<close>

lemma insert_attendance_eq:
  "insert_attendance lid sids rnd k d =
     d\<lparr>attendance := attendance d @
          fresh_rows lid (fold max (map att_id (attendance d)) (att_seq d)) sids rnd k,
       att_seq := (if sids = [] then att_seq d
                   else fold max (map att_id (attendance d)) (att_seq d) + int (length sids))\<rparr>"
proof (induction sids arbitrary: d k)
  case Nil
  show ?case by simp
next
  case (Cons s ss)
  let ?b = "fold max (map att_id (attendance d)) (att_seq d)"
  let ?d1 = "insert_attendance_row lid s (toString (rnd k)) Pending d"
  have att1: "attendance ?d1 = attendance d @
      [\<lparr>att_id = ?b + 1, att_lesson = lid, att_student = s,
        att_otp = toString (rnd k), att_status = Pending, marked_at = None\<rparr>]"
    and seq1: "att_seq ?d1 = ?b + 1"
    by (simp_all add: insert_attendance_row_def next_rowid_def Let_def)
  have b1: "fold max (map att_id (attendance ?d1)) (att_seq ?d1) = ?b + 1"
    unfolding att1 seq1 using fold_max_step [of "map att_id (attendance d)" "att_seq d"] by simp
  have "insert_attendance lid (s # ss) rnd k d = insert_attendance lid ss rnd (Suc k) ?d1"
    by simp
  also have "\<dots> = ?d1\<lparr>attendance := attendance ?d1 @ fresh_rows lid (?b + 1) ss rnd (Suc k),
       att_seq := (if ss = [] then att_seq ?d1 else ?b + 1 + int (length ss))\<rparr>"
    unfolding Cons.IH b1 ..
  also have "\<dots> = d\<lparr>attendance := attendance d @ fresh_rows lid ?b (s # ss) rnd k,
       att_seq := ?b + int (length (s # ss))\<rparr>"
    unfolding att1 seq1 by (simp add: insert_attendance_row_def Let_def)
  finally show ?case by simp
qed

lemma fresh_rows_students: "map att_student (fresh_rows lid b sids rnd k) = sids"
  by (induction sids arbitrary: b k) simp_all

lemma fresh_rows_pending:
  "r \<in> set (fresh_rows lid b sids rnd k) \<Longrightarrow>
     att_lesson r = lid \<and> att_status r = Pending \<and> marked_at r = None \<and> b < att_id r"
proof (induction sids arbitrary: b k)
  case Nil
  then show ?case by simp
next
  case (Cons s ss)
  from Cons.prems consider
      "r = \<lparr>att_id = b + 1, att_lesson = lid, att_student = s,
        att_otp = toString (rnd k), att_status = Pending, marked_at = None\<rparr>"
    | "r \<in> set (fresh_rows lid (b + 1) ss rnd (Suc k))" by auto
  then show ?case
  proof cases
    case 1
    then show ?thesis by simp
  next
    case 2
    from Cons.IH [OF 2] show ?thesis by simp
  qed
qed

lemma fresh_rows_distinct: "distinct (map att_id (fresh_rows lid b sids rnd k))"
proof (induction sids arbitrary: b k)
  case Nil
  show ?case by simp
next
  case (Cons s ss)
  have "b + 1 \<notin> set (map att_id (fresh_rows lid (b + 1) ss rnd (Suc k)))"
    using fresh_rows_pending [of _ lid "b + 1" ss rnd "Suc k"] by fastforce
  then show ?case using Cons.IH by simp
qed

lemma fresh_rows_codes:
  "map att_otp (fresh_rows lid b sids rnd k) =
     map (\<lambda>i. toString (rnd (k + i))) [0..<length sids]"
proof (induction sids arbitrary: b k)
  case Nil
  show ?case by simp
next
  case (Cons s ss)
  have "map (\<lambda>i. toString (rnd (k + i))) [0..<length (s # ss)] =
      toString (rnd k) # map (\<lambda>i. toString (rnd (Suc k + i))) [0..<length ss]"
    by (simp add: upt_conv_Cons map_Suc_upt [symmetric] del: upt_Suc)
  then show ?case using Cons.IH by simp
qed

lemma select_student_ids_mset:
  "mset (select_student_ids d) = mset (map student_id (students d))"
  by (simp add: select_student_ids_def)

lemma select_student_ids_length: "length (select_student_ids d) = length (students d)"
  by (simp add: select_student_ids_def)





lemma map_update_ids:
  "map lesson_id (map (\<lambda>x. if lesson_id x = i
      then x\<lparr>start_time := s, end_time := e, otp_enabled := 0\<rparr> else x) ls) = map lesson_id ls"
  by (induction ls) auto

text \<open>
  C6, as stated. The claim is that a restart, when an active lesson exists, deletes the
  attendance rows of that lesson and inserts fresh ones. In \<open>long_db\<close> lesson 1 was
  started at time 0 for 144000000000 minutes, so it ends at the last millisecond a Date
  holds. A minute later it is the active lesson, the new end time is not a valid date,
  \<^verbatim>\<open>toISOString\<close> throws at line 315, and the request is answered with 500: no row is
  deleted and none inserted.
\<close>

theorem restart_lesson_rejects_long_session:
  "map_option lesson_id (active_lesson_sql long_db 60000) = Some 1 \<and>
   fst (restart_lesson sample_rnd 60000 long_db) = Inl (ServerError ''Invalid time value'') \<and>
   snd (restart_lesson sample_rnd 60000 long_db) = long_db"
  by (simp add: restart_lesson_def active_lesson_sql_def within_24h_sql_def valid_date_def
      long_db_def sample_db_def sample_lesson_def)

text \<open>
  C6, amended. POST /api/lessons/restart, when no active lesson exists, is answered
  with 404 and changes nothing; when an active lesson exists and its new end time, now
  plus its duration, is not a valid date, it is answered with 500 and changes nothing.
  Otherwise it succeeds: the attendance table becomes the old rows of the other lessons,
  as they were, followed by one new row per row of the \<^verbatim>\<open>students\<close> table, in the order
  of the admission numbers, each for the active lesson, with status pending, no
  \<^verbatim>\<open>marked_at\<close>, a rowid larger than any handed out before, and the next code drawn
  from the random source. No lesson row is inserted or deleted: the rows of the active
  lesson's id get the new start and end time and \<^verbatim>\<open>otp_enabled = 0\<close>, in place.
  Students and units are untouched. The active lesson is the one the query of lines
  305-309 selects.
\<close>

theorem restart_lesson_resets:
  "(active_lesson_sql d now = None \<longrightarrow>
      restart_lesson rnd now d = (Inl (NotFound ''No active lesson to restart''), d))
   \<and> (\<forall>a. active_lesson_sql d now = Some a \<and> \<not> valid_date (now + duration a * 60000) \<longrightarrow>
        restart_lesson rnd now d = (Inl (ServerError ''Invalid time value''), d))
   \<and> (\<forall>a. active_lesson_sql d now = Some a \<and> valid_date (now + duration a * 60000) \<longrightarrow>
        (\<exists>rows.
           fst (restart_lesson rnd now d) = Inr ()
         \<and> attendance (snd (restart_lesson rnd now d)) =
             filter (\<lambda>r. att_lesson r \<noteq> lesson_id a) (attendance d) @ rows
         \<and> map att_student rows = select_student_ids d
         \<and> mset (map att_student rows) = mset (map student_id (students d))
         \<and> map att_otp rows = map (\<lambda>i. toString (rnd i)) [0..<length (students d)]
         \<and> (\<forall>r \<in> set rows. att_lesson r = lesson_id a \<and> att_status r = Pending \<and>
                marked_at r = None \<and> att_seq d < att_id r \<and>
                att_id r \<notin> set (map att_id (filter (\<lambda>r. att_lesson r \<noteq> lesson_id a)
                                               (attendance d))))
         \<and> distinct (map att_id rows)
         \<and> lessons (snd (restart_lesson rnd now d)) =
             map (\<lambda>x. if lesson_id x = lesson_id a
                       then x\<lparr>start_time := now, end_time := now + duration a * 60000,
                              otp_enabled := 0\<rparr>
                       else x) (lessons d)
         \<and> map lesson_id (lessons (snd (restart_lesson rnd now d))) = map lesson_id (lessons d)
         \<and> students (snd (restart_lesson rnd now d)) = students d
         \<and> units (snd (restart_lesson rnd now d)) = units d))"
proof -
  have none: "restart_lesson rnd now d = (Inl (NotFound ''No active lesson to restart''), d)"
    if "active_lesson_sql d now = None"
    using that by (simp add: restart_lesson_def)
  have bad: "restart_lesson rnd now d = (Inl (ServerError ''Invalid time value''), d)"
    if "active_lesson_sql d now = Some a" "\<not> valid_date (now + duration a * 60000)" for a
    using that by (simp add: restart_lesson_def)
  have ok: "\<exists>rows.
           fst (restart_lesson rnd now d) = Inr ()
         \<and> attendance (snd (restart_lesson rnd now d)) =
             filter (\<lambda>r. att_lesson r \<noteq> lesson_id a) (attendance d) @ rows
         \<and> map att_student rows = select_student_ids d
         \<and> mset (map att_student rows) = mset (map student_id (students d))
         \<and> map att_otp rows = map (\<lambda>i. toString (rnd i)) [0..<length (students d)]
         \<and> (\<forall>r \<in> set rows. att_lesson r = lesson_id a \<and> att_status r = Pending \<and>
                marked_at r = None \<and> att_seq d < att_id r \<and>
                att_id r \<notin> set (map att_id (filter (\<lambda>r. att_lesson r \<noteq> lesson_id a)
                                               (attendance d))))
         \<and> distinct (map att_id rows)
         \<and> lessons (snd (restart_lesson rnd now d)) =
             map (\<lambda>x. if lesson_id x = lesson_id a
                       then x\<lparr>start_time := now, end_time := now + duration a * 60000,
                              otp_enabled := 0\<rparr>
                       else x) (lessons d)
         \<and> map lesson_id (lessons (snd (restart_lesson rnd now d))) = map lesson_id (lessons d)
         \<and> students (snd (restart_lesson rnd now d)) = students d
         \<and> units (snd (restart_lesson rnd now d)) = units d"
    if a: "active_lesson_sql d now = Some a" and v: "valid_date (now + duration a * 60000)" for a
  proof -
    let ?ls = "map (\<lambda>x. if lesson_id x = lesson_id a
                       then x\<lparr>start_time := now, end_time := now + duration a * 60000,
                              otp_enabled := 0\<rparr>
                       else x) (lessons d)"
    let ?keep = "filter (\<lambda>r. att_lesson r \<noteq> lesson_id a) (attendance d)"
    let ?d2 = "d\<lparr>lessons := ?ls, attendance := ?keep\<rparr>"
    let ?b = "fold max (map att_id ?keep) (att_seq d)"
    let ?rows = "fresh_rows (lesson_id a) ?b (select_student_ids d) rnd 0"
    have run: "restart_lesson rnd now d =
        (Inr (), insert_attendance (lesson_id a) (select_student_ids d) rnd 0 ?d2)"
      using a v by (simp add: restart_lesson_def Let_def select_student_ids_def)
    have c1: "fst (restart_lesson rnd now d) = Inr ()" by (simp add: run)
    have c2: "attendance (snd (restart_lesson rnd now d)) = ?keep @ ?rows"
      by (simp add: run insert_attendance_eq)
    have c3: "map att_student ?rows = select_student_ids d" by (rule fresh_rows_students)
    have c3': "mset (map att_student ?rows) = mset (map student_id (students d))"
      unfolding c3 by (rule select_student_ids_mset)
    have c4: "map att_otp ?rows = map (\<lambda>i. toString (rnd i)) [0..<length (students d)]"
      by (simp add: fresh_rows_codes select_student_ids_length)
    have c5: "\<forall>r \<in> set ?rows. att_lesson r = lesson_id a \<and> att_status r = Pending \<and>
                marked_at r = None \<and> att_seq d < att_id r \<and>
                att_id r \<notin> set (map att_id ?keep)"
    proof
      fix r assume r: "r \<in> set ?rows"
      from fresh_rows_pending [OF r] have p: "att_lesson r = lesson_id a"
        "att_status r = Pending" "marked_at r = None" "?b < att_id r" by simp_all
      have "att_seq d \<le> ?b" by (rule fold_max_ge_init)
      with p(4) have s: "att_seq d < att_id r" by simp
      have "att_id r \<notin> set (map att_id ?keep)"
      proof
        assume "att_id r \<in> set (map att_id ?keep)"
        then have "att_id r \<le> ?b" by (rule fold_max_ge_mem)
        with p(4) show False by simp
      qed
      with p s show "att_lesson r = lesson_id a \<and> att_status r = Pending \<and>
                marked_at r = None \<and> att_seq d < att_id r \<and>
                att_id r \<notin> set (map att_id ?keep)" by simp
    qed
    have c6: "distinct (map att_id ?rows)" by (rule fresh_rows_distinct)
    have c7: "lessons (snd (restart_lesson rnd now d)) = ?ls"
      by (simp add: run insert_attendance_eq)
    have c8: "map lesson_id (lessons (snd (restart_lesson rnd now d))) = map lesson_id (lessons d)"
      unfolding c7 by (rule map_update_ids)
    have c9: "students (snd (restart_lesson rnd now d)) = students d \<and>
        units (snd (restart_lesson rnd now d)) = units d"
      by (simp add: run insert_attendance_eq)
    from c1 c2 c3 c3' c4 c5 c6 c7 c8 c9 show ?thesis by blast
  qed
  from none bad ok show ?thesis by blast
qed

lemma sample_active_sql: "active_lesson_sql sample_db 60000 = Some sample_lesson"
  by (simp add: active_lesson_sql_def within_24h_sql_def sample_db_def sample_lesson_def)

theorem restart_lesson_resets_witness:
  "fst (restart_lesson sample_rnd 60000 sample_db_marked) = Inr () \<and>
   map att_student (attendance (snd (restart_lesson sample_rnd 60000 sample_db_marked))) = [1, 2] \<and>
   map att_status (attendance (snd (restart_lesson sample_rnd 60000 sample_db_marked))) =
     [Pending, Pending] \<and>
   map lesson_id (lessons (snd (restart_lesson sample_rnd 60000 sample_db_marked))) = [1] \<and>
   map otp_enabled (lessons (snd (restart_lesson sample_rnd 60000 sample_db_marked))) = [0] \<and>
   restart_lesson sample_rnd 90000000 sample_db_marked =
     (Inl (NotFound ''No active lesson to restart''), sample_db_marked) \<and>
   snd (restart_lesson sample_rnd 60000 long_db) = long_db"
proof -
  have a: "active_lesson_sql sample_db_marked 60000 = Some sample_lesson"
    by (simp add: active_lesson_sql_def within_24h_sql_def sample_db_marked_def sample_db_def
        sample_lesson_def)
  have v: "valid_date (60000 + duration sample_lesson * 60000)"
    by (simp add: valid_date_def sample_lesson_def)
  have n: "active_lesson_sql sample_db_marked 90000000 = None"
    by (simp add: active_lesson_sql_def within_24h_sql_def sample_db_marked_def sample_db_def
        sample_lesson_def)
  have la: "active_lesson_sql long_db 60000 =
      Some (sample_lesson\<lparr>duration := 144000000000, end_time := 8640000000000000\<rparr>)"
    by (simp add: active_lesson_sql_def within_24h_sql_def long_db_def sample_db_def
        sample_lesson_def)
  have lv: "\<not> valid_date (60000 + duration
      (sample_lesson\<lparr>duration := 144000000000, end_time := 8640000000000000\<rparr>) * 60000)"
    by (simp add: valid_date_def)
  have ids: "select_student_ids sample_db_marked = [1, 2]"
    by (simp add: select_student_ids_def sample_db_marked_def sample_db_def)
  have keep: "filter (\<lambda>r. att_lesson r \<noteq> lesson_id sample_lesson) (attendance sample_db_marked) = []"
    by (simp add: sample_db_marked_def sample_db_def sample_lesson_def sample_row_def)
  from restart_lesson_resets [of sample_db_marked 60000 sample_rnd] a v
  obtain rows where r:
    "fst (restart_lesson sample_rnd 60000 sample_db_marked) = Inr ()"
    "attendance (snd (restart_lesson sample_rnd 60000 sample_db_marked)) =
       filter (\<lambda>r. att_lesson r \<noteq> lesson_id sample_lesson) (attendance sample_db_marked) @ rows"
    "map att_student rows = select_student_ids sample_db_marked"
    "\<forall>r \<in> set rows. att_status r = Pending"
    "lessons (snd (restart_lesson sample_rnd 60000 sample_db_marked)) =
       map (\<lambda>x. if lesson_id x = lesson_id sample_lesson
             then x\<lparr>start_time := 60000, end_time := 60000 + duration sample_lesson * 60000,
                    otp_enabled := 0\<rparr>
             else x) (lessons sample_db_marked)"
    by blast
  have st: "map att_status rows = [Pending, Pending]"
  proof -
    have "length rows = 2"
      using r(3) ids by (metis length_map length_Cons list.size(3) numeral_2_eq_2)
    with r(4) show ?thesis
      by (cases rows; cases "tl rows"; cases "tl (tl rows)") auto
  qed
  from restart_lesson_resets [of sample_db_marked 90000000 sample_rnd] n
  have nf: "restart_lesson sample_rnd 90000000 sample_db_marked =
     (Inl (NotFound ''No active lesson to restart''), sample_db_marked)" by blast
  from restart_lesson_resets [of long_db 60000 sample_rnd] la lv
  have "restart_lesson sample_rnd 60000 long_db = (Inl (ServerError ''Invalid time value''), long_db)"
    by blast
  then have lg: "snd (restart_lesson sample_rnd 60000 long_db) = long_db" by simp
  from r(1) r(2) r(3) r(5) st keep ids nf lg show ?thesis
    by (simp add: sample_db_marked_def sample_db_def sample_lesson_def)
qed

end
